theory Spec2Isabelle
  imports Complex_Main "HOL-Library.Product_Lexorder" "HOL-Library.Multiset"
begin

section \<open>Record schemas (schemas.py)\<close>

text \<open>
  A field of a request body is absent, an explicit null, or a value of the field's type.
  Inputs of another type than the field's are outside this model; they are rejected by
  the validation library before any range is looked at.
\<close>

datatype 'a field = Absent | Null | Val 'a

datatype validation_error =
    Missing string
  | NoneNotAllowed string
  | GreaterThanEqual string int
  | LessThanEqual string int

text \<open>\<open>name: T = Field(...)\<close>: a required field that is not Optional.\<close>

definition required_field :: "string \<Rightarrow> 'a field \<Rightarrow> validation_error + 'a" where
  "required_field name f =
     (case f of Absent \<Rightarrow> Inl (Missing name)
              | Null \<Rightarrow> Inl (NoneNotAllowed name)
              | Val v \<Rightarrow> Inr v)"

text \<open>\<open>name: T = Field(d)\<close>: the default is taken as it is when the key is absent.\<close>

definition default_field :: "string \<Rightarrow> 'a \<Rightarrow> 'a field \<Rightarrow> validation_error + 'a" where
  "default_field name d f =
     (case f of Absent \<Rightarrow> Inr d
              | Null \<Rightarrow> Inl (NoneNotAllowed name)
              | Val v \<Rightarrow> Inr v)"

text \<open>\<open>name: Optional[T] = Field(d)\<close>: null is a value of the field.\<close>

definition optional_field :: "'a option \<Rightarrow> 'a field \<Rightarrow> 'a option" where
  "optional_field d f = (case f of Absent \<Rightarrow> d | Null \<Rightarrow> None | Val v \<Rightarrow> Some v)"

text \<open>The constraints \<open>ge=lo, le=hi\<close> on a value that is present.\<close>

definition check_range :: "string \<Rightarrow> int \<Rightarrow> int \<Rightarrow> int \<Rightarrow> validation_error + int" where
  "check_range name lo hi v =
     (if v < lo then Inl (GreaterThanEqual name lo)
      else if hi < v then Inl (LessThanEqual name hi)
      else Inr v)"

text \<open>\<open>name: int = Field(..., ge=lo, le=hi)\<close>\<close>

definition required_int :: "string \<Rightarrow> int \<Rightarrow> int \<Rightarrow> int field \<Rightarrow> validation_error + int" where
  "required_int name lo hi f =
     (case f of Absent \<Rightarrow> Inl (Missing name)
              | Null \<Rightarrow> Inl (NoneNotAllowed name)
              | Val v \<Rightarrow> check_range name lo hi v)"

text \<open>\<open>name: int = Field(d, ge=lo, le=hi)\<close>\<close>

definition default_int :: "string \<Rightarrow> int \<Rightarrow> int \<Rightarrow> int \<Rightarrow> int field \<Rightarrow> validation_error + int" where
  "default_int name d lo hi f =
     (case f of Absent \<Rightarrow> Inr d
              | Null \<Rightarrow> Inl (NoneNotAllowed name)
              | Val v \<Rightarrow> check_range name lo hi v)"

text \<open>\<open>name: Optional[int] = Field(d, ge=lo, le=hi)\<close>: null passes the range by.\<close>

definition optional_int ::
  "string \<Rightarrow> int \<Rightarrow> int \<Rightarrow> int \<Rightarrow> int field \<Rightarrow> validation_error + int option" where
  "optional_int name d lo hi f =
     (case f of Absent \<Rightarrow> Inr (Some d)
              | Null \<Rightarrow> Inr None
              | Val v \<Rightarrow> (case check_range name lo hi v of Inl e \<Rightarrow> Inl e | Inr w \<Rightarrow> Inr (Some w)))"

definition errors_of :: "validation_error + 'a \<Rightarrow> validation_error list" where
  "errors_of r = (case r of Inl e \<Rightarrow> [e] | Inr _ \<Rightarrow> [])"

text \<open>A calendar date is its proleptic Gregorian ordinal (\<open>date.toordinal()\<close>).\<close>

type_synonym date = int

record task_input =
  in_title :: "string field"
  in_details :: "string field"
  in_priority :: "int field"
  in_due_date :: "date field"
  in_estimated_minutes :: "int field"
  in_category :: "string field"

record Task =
  title :: string
  details :: "string option"
  priority :: int
  due_date :: "date option"
  estimated_minutes :: "int option"
  category :: "string option"

text \<open>
  Validation of a Task body. Every field is validated, and the failures of all fields
  are reported together, in field order.
\<close>

definition validate_Task :: "task_input \<Rightarrow> validation_error list + Task" where
  "validate_Task inp =
     (let t = required_field ''title'' (in_title inp);
          p = default_int ''priority'' 3 1 5 (in_priority inp);
          m = optional_int ''estimated_minutes'' 30 5 600 (in_estimated_minutes inp)
      in case t of
           Inl e \<Rightarrow> Inl (e # errors_of p @ errors_of m)
         | Inr tv \<Rightarrow>
            (case p of
               Inl e \<Rightarrow> Inl (e # errors_of m)
             | Inr pv \<Rightarrow>
                (case m of
                   Inl e \<Rightarrow> Inl [e]
                 | Inr mv \<Rightarrow>
                     Inr \<lparr> title = tv,
                           details = optional_field None (in_details inp),
                           priority = pv,
                           due_date = optional_field None (in_due_date inp),
                           estimated_minutes = mv,
                           category = optional_field None (in_category inp) \<rparr>)))"

record bill_input =
  in_name :: "string field"
  in_amount :: "real field"
  in_due_day :: "int field"
  in_autopay :: "bool field"

record Bill =
  name :: string
  amount :: real
  due_day :: int
  autopay :: bool

definition validate_Bill :: "bill_input \<Rightarrow> validation_error list + Bill" where
  "validate_Bill inp =
     (let n = required_field ''name'' (in_name inp);
          a = required_field ''amount'' (in_amount inp);
          d = required_int ''due_day'' 1 28 (in_due_day inp);
          p = default_field ''autopay'' False (in_autopay inp)
      in case n of
           Inl e \<Rightarrow> Inl (e # errors_of a @ errors_of d @ errors_of p)
         | Inr nv \<Rightarrow>
            (case a of
               Inl e \<Rightarrow> Inl (e # errors_of d @ errors_of p)
             | Inr av \<Rightarrow>
                (case d of
                   Inl e \<Rightarrow> Inl (e # errors_of p)
                 | Inr dv \<Rightarrow>
                    (case p of
                       Inl e \<Rightarrow> Inl [e]
                     | Inr pv \<Rightarrow>
                         Inr \<lparr> name = nv, amount = av, due_day = dv, autopay = pv \<rparr>))))"

text \<open>A predicate for "validation fails".\<close>

definition fails :: "'e + 'a \<Rightarrow> bool" where
  "fails r = (case r of Inl _ \<Rightarrow> True | Inr _ \<Rightarrow> False)"

section \<open>The HTTP layer (main.py)\<close>

subsection \<open>Strings\<close>

text \<open>
  \<open>str.lower()\<close> maps every cased character of Unicode; its table is the
  interpreter's. Where the lower-cased text is only compared with ASCII literals (the
  preferred time of a routine), the function \<open>lower\<close> below, which maps the ASCII
  capitals and leaves every other character alone, decides the comparison as
  \<open>str.lower()\<close> does: the lower-case form of a character outside ASCII holds a
  character outside ASCII or, for the Kelvin sign alone, the letter k, which is in none
  of those literals. Where the lower-cased text itself is kept (the pantry names), the
  case mapping is a parameter, \<open>str_lower\<close>, of which nothing is assumed.
\<close>

definition lower_char :: "char \<Rightarrow> char" where
  "lower_char c =
     (case map_of (zip ''ABCDEFGHIJKLMNOPQRSTUVWXYZ'' ''abcdefghijklmnopqrstuvwxyz'') c of
        None \<Rightarrow> c
      | Some l \<Rightarrow> l)"

definition lower :: "string \<Rightarrow> string" where
  "lower s = map lower_char s"

subsection \<open>Meal suggestions\<close>

text \<open>
  A pantry document as \<open>suggest_meals\<close> reads it: the key \<open>name\<close> is absent or
  holds a string.
\<close>

record pantry_doc =
  p_name :: "string option"

record suggestion =
  s_title :: string
  s_ingredients :: "string list"
  s_steps :: "string list"
  s_tags :: "string list"

definition have_of :: "(string \<Rightarrow> string) \<Rightarrow> pantry_doc list \<Rightarrow> string set" where
  "have_of str_lower pantry =
     set (map (\<lambda>p. str_lower (case p_name p of None \<Rightarrow> [] | Some n \<Rightarrow> n)) pantry)"

definition has :: "string set \<Rightarrow> string list \<Rightarrow> bool" where
  "has have items = list_all (\<lambda>i. i \<in> have) items"

definition egg_toast :: suggestion where
  "egg_toast = \<lparr> s_title = ''Egg toast'',
                 s_ingredients = [''eggs'', ''bread'', ''butter''],
                 s_steps = [''Toast bread'', ''Scramble eggs'', ''Combine and season''],
                 s_tags = [''quick'', ''breakfast''] \<rparr>"

definition simple_pasta :: suggestion where
  "simple_pasta = \<lparr> s_title = ''Simple pasta'',
                    s_ingredients = [''pasta'', ''tomato sauce'', ''olive oil''],
                    s_steps = [''Boil pasta'', ''Heat sauce'', ''Combine''],
                    s_tags = [''dinner'', ''15-min''] \<rparr>"

definition rice_beans :: suggestion where
  "rice_beans = \<lparr> s_title = ''Rice & beans bowl'',
                  s_ingredients = [''rice'', ''beans'', ''spices''],
                  s_steps = [''Cook rice'', ''Warm beans'', ''Season and serve''],
                  s_tags = [''budget'', ''vegan''] \<rparr>"

definition quesadilla :: suggestion where
  "quesadilla = \<lparr> s_title = ''Cheesy quesadilla'',
                  s_ingredients = [''tortilla'', ''cheese''],
                  s_steps = [''Heat tortilla'', ''Melt cheese inside''],
                  s_tags = [''snack'', ''kid-friendly''] \<rparr>"

definition pantry_mix :: "string list \<Rightarrow> suggestion" where
  "pantry_mix have_list = \<lparr> s_title = ''Pantry mix bowl'',
                  s_ingredients = take 5 have_list,
                  s_steps = [''Combine ingredients you have and season to taste''],
                  s_tags = [''creative''] \<rparr>"

text \<open>
  The body of \<open>suggest_meals\<close>, on the documents fetched from the pantry collection.
  \<open>str_lower\<close> is \<open>str.lower\<close>. The order in which \<open>list(have)\<close> enumerates the
  set is the interpreter's too; it is the parameter \<open>list_of\<close>, of which the theorems
  assume only that it enumerates the set without repetition.
\<close>

definition suggest_meals ::
  "(string \<Rightarrow> string) \<Rightarrow> (string set \<Rightarrow> string list) \<Rightarrow> pantry_doc list \<Rightarrow> suggestion list" where
  "suggest_meals str_lower list_of pantry =
     (let have = have_of str_lower pantry;
          s1 = (if has have [''eggs'', ''bread''] then [egg_toast] else []);
          s2 = (if has have [''pasta'', ''tomato sauce''] \<or> has have [''pasta'', ''tomatoes'']
                then s1 @ [simple_pasta] else s1);
          s3 = (if has have [''rice'', ''beans''] then s2 @ [rice_beans] else s2);
          s4 = (if has have [''tortilla'', ''cheese''] then s3 @ [quesadilla] else s3)
      in if s4 = [] \<and> have \<noteq> {} then s4 @ [pantry_mix (list_of have)] else s4)"

definition enumerates :: "(string set \<Rightarrow> string list) \<Rightarrow> string set \<Rightarrow> bool" where
  "enumerates list_of S = (set (list_of S) = S \<and> distinct (list_of S))"

subsection \<open>Instants\<close>

text \<open>
  A \<open>datetime\<close> with zero seconds is the number of minutes since 0001-01-01T00:00, the
  least \<open>datetime\<close>; the greatest one with zero seconds is 9999-12-31T23:59. Adding a
  \<open>timedelta\<close> that leaves this range raises OverflowError (so does building a
  \<open>timedelta\<close> beyond its own, wider, range).
\<close>

type_synonym instant = int

datatype py_exception = ValueError | OverflowError

datatype http_error = HTTPException nat py_exception

definition combine :: "date \<Rightarrow> int \<Rightarrow> int \<Rightarrow> instant" where
  "combine today hh mm = (today - 1) * 1440 + hh * 60 + mm"

definition max_instant :: instant where
  "max_instant = 3652059 * 1440 - 1"

definition plus_minutes :: "instant \<Rightarrow> int \<Rightarrow> py_exception + instant" where
  "plus_minutes t m =
     (if 0 \<le> t + m \<and> t + m \<le> max_instant then Inr (t + m) else Inl OverflowError)"

text \<open>
  \<open>parse_hhmm\<close> from the two integers that \<open>[int(x) for x in s.split(":")]\<close> yields;
  \<open>time(hour, minute)\<close> raises ValueError outside 0..23 and 0..59. Splitting the text
  and the conversion \<open>int\<close> are not part of the model.
\<close>

definition parse_hhmm :: "date \<Rightarrow> int \<times> int \<Rightarrow> py_exception + instant" where
  "parse_hhmm today s =
     (case s of (hh, mm) \<Rightarrow>
        if 0 \<le> hh \<and> hh \<le> 23 \<and> 0 \<le> mm \<and> mm \<le> 59
        then Inr (combine today hh mm) else Inl ValueError)"

subsection \<open>Schedule generation\<close>

record ScheduleRequest =
  start_time :: "(int \<times> int) option"
  end_time :: "(int \<times> int) option"
  break_every_minutes :: int
  break_minutes :: int

definition default_request :: ScheduleRequest where
  "default_request = \<lparr> start_time = Some (9, 0), end_time = Some (18, 0),
                        break_every_minutes = 90, break_minutes = 10 \<rparr>"

text \<open>
  A task document as the schedule reads it: \<open>title\<close> and \<open>priority\<close> are absent or
  hold a value, \<open>estimated_minutes\<close> may also hold null.
\<close>

record task_doc =
  d_title :: "string option"
  d_priority :: "int option"
  d_estimated_minutes :: "int field"

record routine_doc =
  r_name :: "string option"
  r_preferred_time :: "string field"

text \<open>
  A block of the schedule. \<open>b_start\<close> and \<open>b_end\<close> are the instants whose
  \<open>isoformat()\<close> text the source stores: that text has the fixed shape
  YYYY-MM-DDTHH:MM:SS, so the order of the texts, which the final sort uses, is the
  order of the instants. Only task blocks carry a priority.
\<close>

record block =
  b_title :: string
  b_start :: instant
  b_end :: instant
  b_type :: string
  b_priority :: "int option"

record schedule_response =
  resp_date :: date
  resp_blocks :: "block list"

text \<open>\<open>t.get("priority", 3)\<close>\<close>

definition get_priority :: "task_doc \<Rightarrow> int" where
  "get_priority t = (case d_priority t of None \<Rightarrow> 3 | Some p \<Rightarrow> p)"

text \<open>\<open>t.get("estimated_minutes", 30) or 30\<close>: null and 0 are falsy.\<close>

definition get_estimated :: "task_doc \<Rightarrow> int" where
  "get_estimated t =
     (case d_estimated_minutes t of
        Absent \<Rightarrow> 30
      | Null \<Rightarrow> 30
      | Val v \<Rightarrow> if v = 0 then 30 else v)"

definition task_sort_key :: "task_doc \<Rightarrow> int \<times> int" where
  "task_sort_key t = (get_priority t, get_estimated t)"

text \<open>
  \<open>sorted(xs, key=f)\<close> is a stable sort; the stable sort of a list by a linearly ordered
  key is unique, and \<open>sort_key\<close> is it.
\<close>

definition tasks_sorted_of :: "task_doc list \<Rightarrow> task_doc list" where
  "tasks_sorted_of tasks = sort_key task_sort_key tasks"

definition routine_block :: "date \<Rightarrow> routine_doc \<Rightarrow> block" where
  "routine_block today r =
     (let label = (case r_name r of None \<Rightarrow> ''Routine'' | Some n \<Rightarrow> n);
          preferred = lower (case r_preferred_time r of Val s \<Rightarrow> s | _ \<Rightarrow> []);
          rt = (if preferred = ''morning'' then combine today 9 0
                else if preferred = ''afternoon'' then combine today 13 0
                else if preferred = ''evening'' then combine today 18 0
                else combine today 10 0)
      in \<lparr> b_title = ''Routine: '' @ label, b_start = rt, b_end = rt + 15,
            b_type = ''routine'', b_priority = None \<rparr>)"

definition routine_blocks_of :: "date \<Rightarrow> routine_doc list \<Rightarrow> block list" where
  "routine_blocks_of today routines = map (routine_block today) routines"

record loop_state =
  cursor :: instant
  blocks :: "block list"
  minutes_since_break :: int

definition task_block :: "task_doc \<Rightarrow> instant \<Rightarrow> instant \<Rightarrow> block" where
  "task_block t s e =
     \<lparr> b_title = (case d_title t of None \<Rightarrow> ''Task'' | Some x \<Rightarrow> x),
       b_start = s, b_end = e, b_type = ''task'', b_priority = Some (get_priority t) \<rparr>"

definition break_block :: "instant \<Rightarrow> instant \<Rightarrow> block" where
  "break_block s e =
     \<lparr> b_title = ''Break'', b_start = s, b_end = e, b_type = ''break'', b_priority = None \<rparr>"

text \<open>
  The break part of the loop body, run after a task block has been emitted and the
  counter has been increased.
\<close>

definition take_break :: "ScheduleRequest \<Rightarrow> instant \<Rightarrow> loop_state \<Rightarrow> py_exception + loop_state" where
  "take_break req end' st =
     (if break_every_minutes req \<le> minutes_since_break st then
        (case plus_minutes (cursor st) (break_minutes req) of
           Inl x \<Rightarrow> Inl x
         | Inr b_end' \<Rightarrow>
             Inr ((if b_end' \<le> end'
                   then st\<lparr> blocks := blocks st @ [break_block (cursor st) b_end'],
                            cursor := b_end' \<rparr>
                   else st) \<lparr> minutes_since_break := 0 \<rparr>))
      else Inr st)"

text \<open>
  One run of the loop body on the task \<open>t\<close>: \<open>None\<close> is the \<open>break\<close> statement
  that leaves the loop, \<open>Some st'\<close> the state after \<open>i += 1\<close>.
\<close>

definition loop_body ::
  "ScheduleRequest \<Rightarrow> instant \<Rightarrow> task_doc \<Rightarrow> loop_state \<Rightarrow> py_exception + loop_state option" where
  "loop_body req end' t st =
     (let est = get_estimated t
      in case plus_minutes (cursor st) est of
           Inl x \<Rightarrow> Inl x
         | Inr block_end \<Rightarrow>
             if end' < block_end then Inr None
             else (case take_break req end'
                          \<lparr> cursor = block_end,
                            blocks = blocks st @ [task_block t (cursor st) block_end],
                            minutes_since_break = minutes_since_break st + est \<rparr> of
                     Inl x \<Rightarrow> Inl x
                   | Inr st' \<Rightarrow> Inr (Some st')))"

text \<open>
  The loop \<open>while cursor < end and i < len(tasks_sorted)\<close>, on the tasks from index
  \<open>i\<close> on.
\<close>

fun schedule_loop ::
  "ScheduleRequest \<Rightarrow> instant \<Rightarrow> task_doc list \<Rightarrow> loop_state \<Rightarrow> py_exception + loop_state" where
  "schedule_loop req end' [] st = Inr st"
| "schedule_loop req end' (t # ts) st =
     (if cursor st < end' then
        (case loop_body req end' t st of
           Inl x \<Rightarrow> Inl x
         | Inr None \<Rightarrow> Inr st
         | Inr (Some st') \<Rightarrow> schedule_loop req end' ts st')
      else Inr st)"

text \<open>\<open>req.start_time or "09:00"\<close> and \<open>req.end_time or "18:00"\<close>\<close>

definition start_or_default :: "ScheduleRequest \<Rightarrow> int \<times> int" where
  "start_or_default req = (case start_time req of None \<Rightarrow> (9, 0) | Some s \<Rightarrow> s)"

definition end_or_default :: "ScheduleRequest \<Rightarrow> int \<times> int" where
  "end_or_default req = (case end_time req of None \<Rightarrow> (18, 0) | Some s \<Rightarrow> s)"

definition initial_state :: "instant \<Rightarrow> loop_state" where
  "initial_state start = \<lparr> cursor = start, blocks = [], minutes_since_break = 0 \<rparr>"

text \<open>
  \<open>generate_schedule\<close> on today's date and the documents fetched from the task and
  routine collections. Every exception becomes an HTTP 500.
\<close>

definition generate_schedule ::
  "date \<Rightarrow> ScheduleRequest \<Rightarrow> task_doc list \<Rightarrow> routine_doc list \<Rightarrow> http_error + schedule_response" where
  "generate_schedule today req tasks routines =
     (case parse_hhmm today (start_or_default req) of
        Inl x \<Rightarrow> Inl (HTTPException 500 x)
      | Inr start \<Rightarrow>
         (case parse_hhmm today (end_or_default req) of
            Inl x \<Rightarrow> Inl (HTTPException 500 x)
          | Inr end' \<Rightarrow>
             (let tasks_sorted = tasks_sorted_of tasks;
                  routine_blocks = routine_blocks_of today routines
              in case schedule_loop req end' tasks_sorted (initial_state start) of
                   Inl x \<Rightarrow> Inl (HTTPException 500 x)
                 | Inr st \<Rightarrow>
                     Inr \<lparr> resp_date = today,
                           resp_blocks = sort_key b_start (blocks st @ routine_blocks) \<rparr>)))"

subsection \<open>Stored documents\<close>

text \<open>
  Modelled from the spec: \<open>create_document\<close> of the persistence gateway, which is not
  among the sources. It "inserts the record's field values (as a flat key/value
  structure)": every field of the validated Task is a key of the stored document, and a
  field that holds \<open>None\<close> is stored as null.
\<close>

definition task_document :: "Task \<Rightarrow> task_doc" where
  "task_document T =
     \<lparr> d_title = Some (title T), d_priority = Some (priority T),
       d_estimated_minutes = (case estimated_minutes T of None \<Rightarrow> Null | Some v \<Rightarrow> Val v) \<rparr>"

section \<open>Specification-side definitions and sample inputs\<close>

text \<open>
  The four rules as the specification words them: each rule looks at the set of names
  on its own, and the suggestions of the rules that match come in the order 1 to 4,
  each with the title, ingredients, steps and tags the specification lists for it.
\<close>

definition rule_based :: "string set \<Rightarrow> suggestion list" where
  "rule_based have =
     (if ''eggs'' \<in> have \<and> ''bread'' \<in> have
      then [\<lparr> s_title = ''Egg toast'',
               s_ingredients = [''eggs'', ''bread'', ''butter''],
               s_steps = [''Toast bread'', ''Scramble eggs'', ''Combine and season''],
               s_tags = [''quick'', ''breakfast''] \<rparr>]
      else []) @
     (if ''pasta'' \<in> have \<and> (''tomato sauce'' \<in> have \<or> ''tomatoes'' \<in> have)
      then [\<lparr> s_title = ''Simple pasta'',
               s_ingredients = [''pasta'', ''tomato sauce'', ''olive oil''],
               s_steps = [''Boil pasta'', ''Heat sauce'', ''Combine''],
               s_tags = [''dinner'', ''15-min''] \<rparr>]
      else []) @
     (if ''rice'' \<in> have \<and> ''beans'' \<in> have
      then [\<lparr> s_title = ''Rice & beans bowl'',
               s_ingredients = [''rice'', ''beans'', ''spices''],
               s_steps = [''Cook rice'', ''Warm beans'', ''Season and serve''],
               s_tags = [''budget'', ''vegan''] \<rparr>]
      else []) @
     (if ''tortilla'' \<in> have \<and> ''cheese'' \<in> have
      then [\<lparr> s_title = ''Cheesy quesadilla'',
               s_ingredients = [''tortilla'', ''cheese''],
               s_steps = [''Heat tortilla'', ''Melt cheese inside''],
               s_tags = [''snack'', ''kid-friendly''] \<rparr>]
      else [])"

text \<open>None of the four rules matches.\<close>

definition no_rule_matches :: "string set \<Rightarrow> bool" where
  "no_rule_matches have =
     (\<not> (''eggs'' \<in> have \<and> ''bread'' \<in> have)
      \<and> \<not> (''pasta'' \<in> have \<and> (''tomato sauce'' \<in> have \<or> ''tomatoes'' \<in> have))
      \<and> \<not> (''rice'' \<in> have \<and> ''beans'' \<in> have)
      \<and> \<not> (''tortilla'' \<in> have \<and> ''cheese'' \<in> have))"

definition task_a :: task_input where
  "task_a = \<lparr> in_title = Val ''A'', in_details = Absent, in_priority = Val 3,
              in_due_date = Absent, in_estimated_minutes = Val 60, in_category = Null \<rparr>"

definition bill_a :: bill_input where
  "bill_a = \<lparr> in_name = Val ''Rent'', in_amount = Val 900, in_due_day = Val 15,
              in_autopay = Absent \<rparr>"

definition pantry_eggs :: "pantry_doc list" where
  "pantry_eggs = [\<lparr> p_name = Some ''Eggs'' \<rparr>, \<lparr> p_name = Some ''BREAD'' \<rparr>, \<lparr> p_name = Some ''eggs'' \<rparr>]"

definition pantry_full :: "pantry_doc list" where
  "pantry_full = map (\<lambda>n. \<lparr> p_name = Some n \<rparr>)
     [''cheese'', ''Tortilla'', ''beans'', ''Rice'', ''tomatoes'', ''Pasta'', ''bread'', ''Eggs'']"

definition pantry_milk :: "pantry_doc list" where
  "pantry_milk = [\<lparr> p_name = Some ''Milk'' \<rparr>, \<lparr> p_name = Some ''butter'' \<rparr>]"

definition task_null :: task_input where
  "task_null = \<lparr> in_title = Val ''A'', in_details = Absent, in_priority = Val 2,
              in_due_date = Absent, in_estimated_minutes = Null, in_category = Absent \<rparr>"

text \<open>The anchor hour as the specification tables it.\<close>

definition anchor_hour :: "string \<Rightarrow> int" where
  "anchor_hour p =
     (if p = ''morning'' then 9 else if p = ''afternoon'' then 13
      else if p = ''evening'' then 18 else 10)"

definition is_routine :: "block \<Rightarrow> bool" where
  "is_routine b = (b_type b = ''routine'')"

definition request_9_10 :: ScheduleRequest where
  "request_9_10 = \<lparr> start_time = Some (9, 0), end_time = Some (10, 0),
                      break_every_minutes = 90, break_minutes = 10 \<rparr>"

definition routine_yoga :: routine_doc where
  "routine_yoga = \<lparr> r_name = Some ''Yoga'', r_preferred_time = Val ''Evening'' \<rparr>"

definition routine_unnamed :: routine_doc where
  "routine_unnamed = \<lparr> r_name = None, r_preferred_time = Val ''night'' \<rparr>"

definition task_a30 :: task_doc where
  "task_a30 = \<lparr> d_title = Some ''A'', d_priority = Some 1, d_estimated_minutes = Val 30 \<rparr>"

definition routine_walk :: routine_doc where
  "routine_walk = \<lparr> r_name = Some ''Walk'', r_preferred_time = Val ''MORNING'' \<rparr>"

definition response_9_10 :: schedule_response where
  "response_9_10 =
     \<lparr> resp_date = 738000,
       resp_blocks =
         [ \<lparr> b_title = ''A'', b_start = combine 738000 9 0, b_end = combine 738000 9 30,
              b_type = ''task'', b_priority = Some 1 \<rparr>,
           \<lparr> b_title = ''Routine: Routine'', b_start = combine 738000 10 0,
              b_end = combine 738000 10 15, b_type = ''routine'', b_priority = None \<rparr>,
           \<lparr> b_title = ''Routine: Yoga'', b_start = combine 738000 18 0,
              b_end = combine 738000 18 15, b_type = ''routine'', b_priority = None \<rparr> ] \<rparr>"

definition response_tie :: schedule_response where
  "response_tie =
     \<lparr> resp_date = 738000,
       resp_blocks =
         [ \<lparr> b_title = ''A'', b_start = combine 738000 9 0, b_end = combine 738000 9 30,
              b_type = ''task'', b_priority = Some 1 \<rparr>,
           \<lparr> b_title = ''Routine: Walk'', b_start = combine 738000 9 0,
              b_end = combine 738000 9 15, b_type = ''routine'', b_priority = None \<rparr> ] \<rparr>"

definition is_task :: "block \<Rightarrow> bool" where
  "is_task b = (b_type b = ''task'')"

text \<open>What a block shows of its task: title, priority, length.\<close>

definition block_summary :: "block \<Rightarrow> string \<times> int option \<times> int" where
  "block_summary b = (b_title b, b_priority b, b_end b - b_start b)"

definition task_summary :: "task_doc \<Rightarrow> string \<times> int option \<times> int" where
  "task_summary t =
     ((case d_title t of None \<Rightarrow> ''Task'' | Some x \<Rightarrow> x), Some (get_priority t), get_estimated t)"

definition request_9_11 :: ScheduleRequest where
  "request_9_11 = \<lparr> start_time = Some (9, 0), end_time = Some (11, 0),
                      break_every_minutes = 50, break_minutes = 10 \<rparr>"


definition request_10_9 :: ScheduleRequest where
  "request_10_9 = \<lparr> start_time = Some (10, 0), end_time = Some (9, 0),
                      break_every_minutes = 90, break_minutes = 10 \<rparr>"

definition task_a50 :: task_doc where
  "task_a50 = \<lparr> d_title = Some ''A'', d_priority = Some 1, d_estimated_minutes = Val 50 \<rparr>"

definition task_b120 :: task_doc where
  "task_b120 = \<lparr> d_title = Some ''B'', d_priority = Some 2, d_estimated_minutes = Val 120 \<rparr>"

definition task_c30 :: task_doc where
  "task_c30 = \<lparr> d_title = Some ''C'', d_priority = Some 3, d_estimated_minutes = Null \<rparr>"


definition state_after_a50 :: loop_state where
  "state_after_a50 =
     \<lparr> cursor = combine 738000 10 0,
       blocks = [task_block task_a50 (combine 738000 9 0) (combine 738000 9 50),
                 break_block (combine 738000 9 50) (combine 738000 10 0)],
       minutes_since_break = 0 \<rparr>"

text \<open>
  A list of blocks is chained from an instant when the first block starts there and
  every other block starts where the one before it ends.
\<close>

fun chained :: "instant \<Rightarrow> block list \<Rightarrow> bool" where
  "chained s [] = True"
| "chained s (b # bs) = (b_start b = s \<and> chained (b_end b) bs)"

fun chain_end :: "instant \<Rightarrow> block list \<Rightarrow> instant" where
  "chain_end s [] = s"
| "chain_end s (b # bs) = chain_end (b_end b) bs"








section \<open>Properties\<close>

subsection \<open>Validation\<close>

lemma fails_simps: "fails (Inl e) = True" "fails (Inr v) = False"
  by (simp_all add: fails_def)

lemma validate_Task_priority:
  "fails (validate_Task (t\<lparr>in_priority := Val p\<rparr>)) =
     (fails (required_field ''title'' (in_title t))
      \<or> fails (optional_int ''estimated_minutes'' 30 5 600 (in_estimated_minutes t))
      \<or> p < 1 \<or> 5 < p)"
  by (auto simp add: validate_Task_def default_int_def check_range_def fails_def Let_def
      split: sum.splits)

lemma validate_Task_priority_absent:
  "validate_Task (t\<lparr>in_priority := Absent\<rparr>) = Inr T \<Longrightarrow> priority T = 3"
  by (auto simp add: validate_Task_def default_int_def Let_def split: sum.splits)

lemma validate_Task_no_priority:
  "fails (validate_Task (t\<lparr>in_priority := Absent\<rparr>)) =
     (fails (required_field ''title'' (in_title t))
      \<or> fails (optional_int ''estimated_minutes'' 30 5 600 (in_estimated_minutes t)))"
  by (auto simp add: validate_Task_def default_int_def fails_def Let_def split: sum.splits)

lemma validate_Bill_due_day:
  "fails (validate_Bill (b\<lparr>in_due_day := Val d\<rparr>)) =
     (fails (required_field ''name'' (in_name b))
      \<or> fails (required_field ''amount'' (in_amount b))
      \<or> fails (default_field ''autopay'' False (in_autopay b))
      \<or> d < 1 \<or> 28 < d)"
  by (auto simp add: validate_Bill_def required_int_def check_range_def fails_def Let_def
      split: sum.splits)

text \<open>
  C8. Validation of a Task fails for priority 0 and 6, and validation of a Bill fails
  for due_day 0 and 29, whatever the other fields hold. When the other fields of the
  body are valid, priority 1 and 5 and due_day 1 and 28 are accepted, validation fails
  exactly when the value is outside 1..5 (respectively 1..28), and an absent priority
  becomes 3.
\<close>

theorem range_validation:
  "fails (validate_Task (t\<lparr>in_priority := Val 0\<rparr>))
   \<and> fails (validate_Task (t\<lparr>in_priority := Val 6\<rparr>))
   \<and> fails (validate_Bill (b\<lparr>in_due_day := Val 0\<rparr>))
   \<and> fails (validate_Bill (b\<lparr>in_due_day := Val 29\<rparr>))
   \<and> (\<not> fails (validate_Task (t\<lparr>in_priority := Absent\<rparr>)) \<longrightarrow>
        \<not> fails (validate_Task (t\<lparr>in_priority := Val 1\<rparr>))
      \<and> \<not> fails (validate_Task (t\<lparr>in_priority := Val 5\<rparr>))
      \<and> (fails (validate_Task (t\<lparr>in_priority := Val p\<rparr>)) \<longleftrightarrow> p < 1 \<or> 5 < p)
      \<and> (\<exists>T. validate_Task (t\<lparr>in_priority := Absent\<rparr>) = Inr T \<and> priority T = 3))
   \<and> (\<not> fails (validate_Bill (b\<lparr>in_due_day := Val d0\<rparr>)) \<longrightarrow>
        \<not> fails (validate_Bill (b\<lparr>in_due_day := Val 1\<rparr>))
      \<and> \<not> fails (validate_Bill (b\<lparr>in_due_day := Val 28\<rparr>))
      \<and> (fails (validate_Bill (b\<lparr>in_due_day := Val d\<rparr>)) \<longleftrightarrow> d < 1 \<or> 28 < d))"
proof -
  have p3: "\<exists>T. validate_Task (t\<lparr>in_priority := Absent\<rparr>) = Inr T \<and> priority T = 3"
    if "\<not> fails (validate_Task (t\<lparr>in_priority := Absent\<rparr>))"
  proof (cases "validate_Task (t\<lparr>in_priority := Absent\<rparr>)")
    case (Inl e)
    with that show ?thesis by (simp add: fails_def)
  next
    case (Inr T)
    then show ?thesis using validate_Task_priority_absent [of t T] by simp
  qed
  show ?thesis
    using p3
    by (simp add: validate_Task_priority validate_Bill_due_day validate_Task_no_priority)
qed

theorem range_validation_witness:
  "\<not> fails (validate_Task (task_a\<lparr>in_priority := Absent\<rparr>))
   \<and> \<not> fails (validate_Bill (bill_a\<lparr>in_due_day := Val 15\<rparr>))
   \<and> fails (validate_Task (task_a\<lparr>in_priority := Val 0\<rparr>))
   \<and> fails (validate_Task (task_a\<lparr>in_priority := Val 6\<rparr>))
   \<and> \<not> fails (validate_Task (task_a\<lparr>in_priority := Val 1\<rparr>))
   \<and> \<not> fails (validate_Task (task_a\<lparr>in_priority := Val 5\<rparr>))
   \<and> fails (validate_Bill (bill_a\<lparr>in_due_day := Val 0\<rparr>))
   \<and> fails (validate_Bill (bill_a\<lparr>in_due_day := Val 29\<rparr>))
   \<and> \<not> fails (validate_Bill (bill_a\<lparr>in_due_day := Val 1\<rparr>))
   \<and> \<not> fails (validate_Bill (bill_a\<lparr>in_due_day := Val 28\<rparr>))"
proof -
  have t: "\<not> fails (validate_Task (task_a\<lparr>in_priority := Absent\<rparr>))"
    by (simp add: task_a_def validate_Task_def required_field_def default_int_def
        optional_int_def check_range_def fails_def Let_def)
  have b: "\<not> fails (validate_Bill (bill_a\<lparr>in_due_day := Val 15\<rparr>))"
    by (simp add: bill_a_def validate_Bill_def required_field_def required_int_def
        default_field_def check_range_def fails_def Let_def)
  show ?thesis
    using t b range_validation [where t = task_a and b = bill_a and ?d0.0 = 15 and p = 3 and d = 15] by simp
qed

subsection \<open>Meal suggestions and null estimates\<close>

lemma has_pair: "has have [a, b] = (a \<in> have \<and> b \<in> have)"
  by (simp add: has_def)

lemma have_of_empty: "have_of str_lower pantry = {} \<longleftrightarrow> pantry = []"
  by (simp add: have_of_def)

lemma suggest_meals_rule_based:
  "suggest_meals str_lower list_of pantry =
     (if rule_based (have_of str_lower pantry) = [] \<and> pantry \<noteq> []
      then [pantry_mix (list_of (have_of str_lower pantry))]
      else rule_based (have_of str_lower pantry))"
  by (auto simp add: suggest_meals_def rule_based_def has_pair have_of_empty Let_def
      egg_toast_def simple_pasta_def rice_beans_def quesadilla_def)

lemma rule_based_Nil: "rule_based have = [] \<longleftrightarrow> no_rule_matches have"
  by (auto simp add: rule_based_def no_rule_matches_def)

lemma no_rule_matches_no_pantry: "no_rule_matches (have_of str_lower [])"
  by (simp add: no_rule_matches_def have_of_def)

lemma have_of_pantry_eggs: "have_of lower pantry_eggs = {''eggs'', ''bread''}"
  by (auto simp add: have_of_def pantry_eggs_def lower_def lower_char_def)

lemma have_of_pantry_full:
  "have_of lower pantry_full =
     {''cheese'', ''tortilla'', ''beans'', ''rice'', ''tomatoes'', ''pasta'', ''bread'', ''eggs''}"
  by (simp add: have_of_def pantry_full_def lower_def lower_char_def)

lemma have_of_pantry_milk: "have_of lower pantry_milk = {''milk'', ''butter''}"
  by (simp add: have_of_def pantry_milk_def lower_def lower_char_def)

text \<open>
  C6. Each of the four rules looks at the lower-cased set of pantry names on its own,
  and the suggestions of the rules that match are listed in the order 1 to 4, each with
  its title, ingredients, steps and tags; the fallback only comes when none matched. A
  pantry whose lower-cased names are exactly eggs and bread gets the suggestion titled
  "Egg toast" and nothing else, and a pantry can trigger all four rules at once.
\<close>

theorem meal_rules_in_order:
  "suggest_meals str_lower list_of pantry =
     (if rule_based (have_of str_lower pantry) = [] \<and> pantry \<noteq> []
      then [pantry_mix (list_of (have_of str_lower pantry))]
      else rule_based (have_of str_lower pantry))
   \<and> (have_of str_lower pantry = {''eggs'', ''bread''} \<longrightarrow>
        suggest_meals str_lower list_of pantry =
          [\<lparr> s_title = ''Egg toast'',
              s_ingredients = [''eggs'', ''bread'', ''butter''],
              s_steps = [''Toast bread'', ''Scramble eggs'', ''Combine and season''],
              s_tags = [''quick'', ''breakfast''] \<rparr>])
   \<and> map s_title (suggest_meals lower list_of pantry_full) =
        [''Egg toast'', ''Simple pasta'', ''Rice & beans bowl'', ''Cheesy quesadilla'']"
proof -
  have eggs: "rule_based {''eggs'', ''bread''} =
          [\<lparr> s_title = ''Egg toast'',
              s_ingredients = [''eggs'', ''bread'', ''butter''],
              s_steps = [''Toast bread'', ''Scramble eggs'', ''Combine and season''],
              s_tags = [''quick'', ''breakfast''] \<rparr>]"
    by (simp add: rule_based_def)
  have full: "map s_title (rule_based (have_of lower pantry_full)) =
        [''Egg toast'', ''Simple pasta'', ''Rice & beans bowl'', ''Cheesy quesadilla'']"
    unfolding have_of_pantry_full by (simp add: rule_based_def)
  then have "rule_based (have_of lower pantry_full) \<noteq> []"
    by auto
  then have full': "map s_title (suggest_meals lower list_of pantry_full) =
        [''Egg toast'', ''Simple pasta'', ''Rice & beans bowl'', ''Cheesy quesadilla'']"
    using full by (simp add: suggest_meals_rule_based)
  have e: "suggest_meals str_lower list_of pantry =
          [\<lparr> s_title = ''Egg toast'',
              s_ingredients = [''eggs'', ''bread'', ''butter''],
              s_steps = [''Toast bread'', ''Scramble eggs'', ''Combine and season''],
              s_tags = [''quick'', ''breakfast''] \<rparr>]"
    if "have_of str_lower pantry = {''eggs'', ''bread''}"
    using that eggs by (simp add: suggest_meals_rule_based)
  from suggest_meals_rule_based [of str_lower list_of pantry] e full'
  show ?thesis by blast
qed

theorem meal_rules_in_order_witness:
  "have_of lower pantry_eggs = {''eggs'', ''bread''}
   \<and> map s_title (suggest_meals lower (\<lambda>S. []) pantry_eggs) = [''Egg toast'']
   \<and> map s_ingredients (suggest_meals lower (\<lambda>S. []) pantry_eggs) =
       [[''eggs'', ''bread'', ''butter'']]"
proof -
  have h: "have_of lower pantry_eggs = {''eggs'', ''bread''}"
    by (rule have_of_pantry_eggs)
  from meal_rules_in_order [where pantry = pantry_eggs and list_of = "\<lambda>S. []"
      and str_lower = lower] h
  have "suggest_meals lower (\<lambda>S. []) pantry_eggs =
          [\<lparr> s_title = ''Egg toast'',
              s_ingredients = [''eggs'', ''bread'', ''butter''],
              s_steps = [''Toast bread'', ''Scramble eggs'', ''Combine and season''],
              s_tags = [''quick'', ''breakfast''] \<rparr>]"
    by blast
  with h show ?thesis by simp
qed

text \<open>
  C7. When none of the four rules matches and the pantry is not empty, the only
  suggestion is the Pantry mix bowl, with the one step and the tag creative; its
  ingredients are the first five names in the order the set of lower-cased names is
  enumerated, all of them names of that set, none twice, five of them or all if there
  are fewer. This holds for every case mapping and every enumeration order. For an
  empty pantry there is no suggestion.
\<close>

theorem pantry_mix_fallback:
  assumes "no_rule_matches (have_of str_lower pantry)"
      and "enumerates list_of (have_of str_lower pantry)"
  shows "(pantry \<noteq> [] \<longrightarrow>
            (\<exists>ings. suggest_meals str_lower list_of pantry =
                      [\<lparr> s_title = ''Pantry mix bowl'', s_ingredients = ings,
                          s_steps = [''Combine ingredients you have and season to taste''],
                          s_tags = [''creative''] \<rparr>]
                  \<and> ings = take 5 (list_of (have_of str_lower pantry))
                  \<and> set ings \<subseteq> have_of str_lower pantry \<and> distinct ings
                  \<and> length ings = min 5 (card (have_of str_lower pantry))))
       \<and> (pantry = [] \<longrightarrow> suggest_meals str_lower list_of pantry = [])"
proof -
  let ?l = "list_of (have_of str_lower pantry)"
  from assms(2) have s: "set ?l = have_of str_lower pantry" and d: "distinct ?l"
    by (simp_all add: enumerates_def)
  have sub: "set (take 5 ?l) \<subseteq> have_of str_lower pantry"
    using s set_take_subset [of 5 ?l] by simp
  have len: "length (take 5 ?l) = min 5 (card (have_of str_lower pantry))"
    using distinct_card [OF d] s by simp
  have r: "rule_based (have_of str_lower pantry) = []"
    using assms(1) by (simp add: rule_based_Nil)
  show ?thesis
    using r sub len d
    by (auto simp add: suggest_meals_rule_based pantry_mix_def)
qed

theorem pantry_mix_fallback_witness:
  "no_rule_matches (have_of lower pantry_milk)
   \<and> enumerates (\<lambda>S. [''butter'', ''milk'']) (have_of lower pantry_milk)
   \<and> pantry_milk \<noteq> []
   \<and> suggest_meals lower (\<lambda>S. [''butter'', ''milk'']) pantry_milk =
       [\<lparr> s_title = ''Pantry mix bowl'', s_ingredients = [''butter'', ''milk''],
           s_steps = [''Combine ingredients you have and season to taste''],
           s_tags = [''creative''] \<rparr>]
   \<and> suggest_meals lower (\<lambda>S. []) [] = []"
proof -
  have r: "no_rule_matches (have_of lower pantry_milk)"
    unfolding have_of_pantry_milk by (simp add: no_rule_matches_def)
  have e: "enumerates (\<lambda>S. [''butter'', ''milk'']) (have_of lower pantry_milk)"
    unfolding have_of_pantry_milk by (auto simp add: enumerates_def)
  have r0: "no_rule_matches (have_of lower [])"
    by (rule no_rule_matches_no_pantry)
  have e0: "enumerates (\<lambda>S. []) (have_of lower [])"
    by (simp add: enumerates_def have_of_def)
  have n: "pantry_milk \<noteq> []" by (simp add: pantry_milk_def)
  from pantry_mix_fallback [OF r e] n
  have a: "suggest_meals lower (\<lambda>S. [''butter'', ''milk'']) pantry_milk =
       [\<lparr> s_title = ''Pantry mix bowl'', s_ingredients = [''butter'', ''milk''],
           s_steps = [''Combine ingredients you have and season to taste''],
           s_tags = [''creative''] \<rparr>]"
    by simp
  from pantry_mix_fallback [OF r0 e0]
  have b: "suggest_meals lower (\<lambda>S. []) [] = []"
    by simp
  from r e n a b show ?thesis by (intro conjI)
qed

lemma get_estimated_Null: "d_estimated_minutes d = Null \<Longrightarrow> get_estimated d = 30"
  by (simp add: get_estimated_def)

text \<open>
  C10. A Task body that is valid without estimated_minutes is also valid with an
  explicit null there: the validated Task is the same but for estimated_minutes, which
  is None instead of the default 30. The stored document holds null, and the schedule
  reads it as 30 minutes, in the sort key as in the loop.
\<close>

theorem null_estimated_minutes:
  assumes "validate_Task (t\<lparr>in_estimated_minutes := Absent\<rparr>) = Inr T0"
  shows "\<exists>T. validate_Task (t\<lparr>in_estimated_minutes := Null\<rparr>) = Inr T
           \<and> T = T0\<lparr>estimated_minutes := None\<rparr>
           \<and> estimated_minutes T0 = Some 30
           \<and> d_estimated_minutes (task_document T) = Null
           \<and> get_estimated (task_document T) = 30
           \<and> task_sort_key (task_document T) = (priority T, 30)"
  using assms
  by (auto simp add: validate_Task_def optional_int_def Let_def task_document_def
      get_estimated_def task_sort_key_def get_priority_def split: sum.splits)

theorem null_estimated_minutes_witness:
  "validate_Task task_null =
     Inr \<lparr> title = ''A'', details = None, priority = 2, due_date = None,
           estimated_minutes = None, category = None \<rparr>
   \<and> get_estimated \<lparr> d_title = Some ''A'', d_priority = Some 2, d_estimated_minutes = Null \<rparr> = 30"
proof -
  have a: "validate_Task (task_null\<lparr>in_estimated_minutes := Absent\<rparr>) =
     Inr \<lparr> title = ''A'', details = None, priority = 2, due_date = None,
           estimated_minutes = Some 30, category = None \<rparr>"
    by (simp add: task_null_def validate_Task_def required_field_def default_int_def
        optional_int_def optional_field_def check_range_def Let_def)
  show ?thesis
    using null_estimated_minutes [OF a]
    by (simp add: task_null_def task_document_def)
qed

subsection \<open>Sorting and routine reminders\<close>

lemma generate_schedule_Inr:
  "generate_schedule today req tasks routines = Inr resp \<longleftrightarrow>
     (\<exists>start end' st.
        parse_hhmm today (start_or_default req) = Inr start
      \<and> parse_hhmm today (end_or_default req) = Inr end'
      \<and> schedule_loop req end' (tasks_sorted_of tasks) (initial_state start) = Inr st
      \<and> resp = \<lparr> resp_date = today,
                  resp_blocks = sort_key b_start (blocks st @ routine_blocks_of today routines) \<rparr>)"
  by (auto simp add: generate_schedule_def Let_def split: sum.splits)

lemma take_break_cases:
  assumes "take_break req end' st = Inr st'"
  obtains (no_break) "minutes_since_break st < break_every_minutes req" "st' = st"
  | (fits) b_end' where "break_every_minutes req \<le> minutes_since_break st"
      "plus_minutes (cursor st) (break_minutes req) = Inr b_end'" "b_end' \<le> end'"
      "st' = \<lparr> cursor = b_end', blocks = blocks st @ [break_block (cursor st) b_end'],
               minutes_since_break = 0 \<rparr>"
  | (dropped) b_end' where "break_every_minutes req \<le> minutes_since_break st"
      "plus_minutes (cursor st) (break_minutes req) = Inr b_end'" "end' < b_end'"
      "st' = \<lparr> cursor = cursor st, blocks = blocks st, minutes_since_break = 0 \<rparr>"
  using assms
  by (auto simp add: take_break_def split: if_splits sum.splits)

lemma loop_body_Some:
  assumes "loop_body req end' t st = Inr (Some st')"
  obtains block_end where
    "plus_minutes (cursor st) (get_estimated t) = Inr block_end" "block_end \<le> end'"
    "take_break req end'
       \<lparr> cursor = block_end, blocks = blocks st @ [task_block t (cursor st) block_end],
         minutes_since_break = minutes_since_break st + get_estimated t \<rparr> = Inr st'"
  using assms
  by (auto simp add: loop_body_def Let_def split: if_splits sum.splits)

lemma schedule_loop_invariant:
  assumes "schedule_loop req end' ts st = Inr st'"
      and "P st"
      and "\<And>t s s'. P s \<Longrightarrow> cursor s < end' \<Longrightarrow> loop_body req end' t s = Inr (Some s') \<Longrightarrow> P s'"
  shows "P st'"
  using assms(1,2)
proof (induction ts arbitrary: st)
  case Nil
  then show ?case by simp
next
  case (Cons t ts)
  show ?case
  proof (cases "cursor st < end'")
    case False
    with Cons.prems show ?thesis by simp
  next
    case True
    show ?thesis
    proof (cases "loop_body req end' t st")
      case (Inl x)
      with True Cons.prems show ?thesis by simp
    next
      case (Inr r)
      show ?thesis
      proof (cases r)
        case None
        with Inr True Cons.prems show ?thesis by simp
      next
        case (Some s')
        with Inr True Cons.prems have "schedule_loop req end' ts s' = Inr st'" by simp
        moreover from Some Inr True Cons.prems(2) have "P s'" using assms(3) by blast
        ultimately show ?thesis by (rule Cons.IH)
      qed
    qed
  qed
qed

lemma loop_body_not_routine:
  assumes "loop_body req end' t s = Inr (Some s')"
      and "list_all (\<lambda>b. \<not> is_routine b) (blocks s)"
  shows "list_all (\<lambda>b. \<not> is_routine b) (blocks s')"
proof -
  from assms(1) obtain block_end where
    tb: "take_break req end'
       \<lparr> cursor = block_end, blocks = blocks s @ [task_block t (cursor s) block_end],
         minutes_since_break = minutes_since_break s + get_estimated t \<rparr> = Inr s'"
    by (rule loop_body_Some)
  from tb show ?thesis
    by (cases rule: take_break_cases)
       (use assms(2) in \<open>simp_all add: is_routine_def task_block_def break_block_def\<close>)
qed

lemma schedule_loop_not_routine:
  assumes "schedule_loop req end' ts (initial_state start) = Inr st"
  shows "list_all (\<lambda>b. \<not> is_routine b) (blocks st)"
  using assms
proof (rule schedule_loop_invariant)
  show "list_all (\<lambda>b. \<not> is_routine b) (blocks (initial_state start))"
    by (simp add: initial_state_def)
qed (rule loop_body_not_routine)

lemma routine_blocks_routine: "list_all is_routine (routine_blocks_of today routines)"
  by (simp add: routine_blocks_of_def routine_block_def is_routine_def list_all_iff Let_def)

lemma filter_none: "list_all (\<lambda>b. \<not> P b) xs \<Longrightarrow> filter P xs = []"
  by (induction xs) auto

lemma filter_all: "list_all P xs \<Longrightarrow> filter P xs = xs"
  by (induction xs) auto

lemma response_routine_blocks:
  assumes "generate_schedule today req tasks routines = Inr resp"
  shows "filter is_routine (resp_blocks resp) = sort_key b_start (routine_blocks_of today routines)"
proof -
  from assms obtain start end' st where
    loop: "schedule_loop req end' (tasks_sorted_of tasks) (initial_state start) = Inr st" and
    resp: "resp_blocks resp = sort_key b_start (blocks st @ routine_blocks_of today routines)"
    by (auto simp add: generate_schedule_Inr)
  have "filter is_routine (blocks st) = []"
    using schedule_loop_not_routine [OF loop] by (rule filter_none)
  moreover have "filter is_routine (routine_blocks_of today routines) = routine_blocks_of today routines"
    using routine_blocks_routine by (rule filter_all)
  ultimately show ?thesis
    by (simp add: resp filter_sort)
qed

text \<open>
  C3. The sorted tasks are a rearrangement of the fetched tasks, ascending in the pair
  (priority, estimated minutes): of two tasks the earlier one has the lesser priority
  value, or the same priority and at most the estimate of the later one. Tasks with the
  same pair keep their order. The priority read is 3 when the key is absent, and the
  estimate read is 30 when the key is absent, null or 0.
\<close>

theorem tasks_sorted_by_priority_then_minutes:
  "sorted (map task_sort_key (tasks_sorted_of tasks))
   \<and> sorted_wrt (\<lambda>a b. get_priority a < get_priority b
                     \<or> get_priority a = get_priority b \<and> get_estimated a \<le> get_estimated b)
        (tasks_sorted_of tasks)
   \<and> mset (tasks_sorted_of tasks) = mset tasks
   \<and> (\<forall>k. filter (\<lambda>t. task_sort_key t = k) (tasks_sorted_of tasks)
          = filter (\<lambda>t. task_sort_key t = k) tasks)
   \<and> get_priority (t\<lparr>d_priority := None\<rparr>) = 3
   \<and> get_priority (t\<lparr>d_priority := Some p\<rparr>) = p
   \<and> get_estimated (t\<lparr>d_estimated_minutes := Absent\<rparr>) = 30
   \<and> get_estimated (t\<lparr>d_estimated_minutes := Null\<rparr>) = 30
   \<and> get_estimated (t\<lparr>d_estimated_minutes := Val 0\<rparr>) = 30
   \<and> get_estimated (t\<lparr>d_estimated_minutes := Val m\<rparr>) = (if m = 0 then 30 else m)"
proof -
  have s: "sorted (map task_sort_key (tasks_sorted_of tasks))"
    by (simp add: tasks_sorted_of_def)
  have "sorted_wrt (\<lambda>a b. task_sort_key a \<le> task_sort_key b) (tasks_sorted_of tasks)"
    using s by (simp add: sorted_map)
  then have l: "sorted_wrt (\<lambda>a b. get_priority a < get_priority b
                     \<or> get_priority a = get_priority b \<and> get_estimated a \<le> get_estimated b)
        (tasks_sorted_of tasks)"
    by (rule sorted_wrt_mono_rel [rotated]) (auto simp add: task_sort_key_def)
  show ?thesis
    using s l
    by (simp add: tasks_sorted_of_def sort_key_stable get_priority_def get_estimated_def)
qed

lemma sample_tasks_sorted:
  "tasks_sorted_of [task_c30, task_b120, task_a30, task_a50] =
     [task_a30, task_a50, task_b120, task_c30]"
  by (simp add: tasks_sorted_of_def task_sort_key_def get_priority_def get_estimated_def
      task_a30_def task_a50_def task_b120_def task_c30_def)

text \<open>
  C4. In every response the blocks of type routine are the blocks of the routine
  documents, one for each routine, whatever the window of the request is. The block of
  a routine is titled "Routine: " followed by its name ("Routine" when it has none),
  starts today at the hour that the lower-cased preferred time selects (morning 9,
  afternoon 13, evening 18, anything else, absent or null 10) and ends 15 minutes later.
\<close>

theorem routine_reminders:
  assumes "generate_schedule today req tasks routines = Inr resp"
  shows "filter is_routine (resp_blocks resp) = sort_key b_start (map (routine_block today) routines)
   \<and> length (filter is_routine (resp_blocks resp)) = length routines
   \<and> b_title (routine_block today r) = ''Routine: '' @ (case r_name r of None \<Rightarrow> ''Routine'' | Some n \<Rightarrow> n)
   \<and> b_start (routine_block today r) =
       combine today (anchor_hour (lower (case r_preferred_time r of Val s \<Rightarrow> s | _ \<Rightarrow> []))) 0
   \<and> b_end (routine_block today r) = b_start (routine_block today r) + 15
   \<and> b_type (routine_block today r) = ''routine''
   \<and> b_start (routine_block today (r\<lparr>r_preferred_time := Val ''Evening''\<rparr>)) = combine today 18 0
   \<and> b_start (routine_block today (r\<lparr>r_preferred_time := Val ''night''\<rparr>)) = combine today 10 0
   \<and> b_start (routine_block today (r\<lparr>r_preferred_time := Absent\<rparr>)) = combine today 10 0
   \<and> b_start (routine_block today (r\<lparr>r_preferred_time := Null\<rparr>)) = combine today 10 0"
proof -
  have f: "filter is_routine (resp_blocks resp) = sort_key b_start (map (routine_block today) routines)"
    using response_routine_blocks [OF assms] by (simp add: routine_blocks_of_def)
  have n: "length (filter is_routine (resp_blocks resp)) = length routines"
    by (simp add: f)
  show ?thesis
    using f n
    by (simp add: routine_block_def anchor_hour_def Let_def lower_def lower_char_def)
qed

lemmas schedule_eval =
  generate_schedule_def start_or_default_def end_or_default_def parse_hhmm_def combine_def
  tasks_sorted_of_def routine_blocks_of_def routine_block_def initial_state_def
  loop_body_def take_break_def plus_minutes_def max_instant_def get_estimated_def
  get_priority_def task_sort_key_def task_block_def break_block_def lower_def lower_char_def
  Let_def

lemma sample_schedule_9_10:
  "generate_schedule 738000 request_9_10 [task_a30] [routine_yoga, routine_unnamed] =
     Inr response_9_10"
  by (simp add: schedule_eval request_9_10_def task_a30_def routine_yoga_def
      routine_unnamed_def response_9_10_def)

lemma sample_schedule_tie:
  "generate_schedule 738000 request_9_10 [task_a30] [routine_walk] = Inr response_tie"
  by (simp add: schedule_eval request_9_10_def task_a30_def routine_walk_def response_tie_def)

theorem routine_reminders_witness:
  "generate_schedule 738000 request_9_10 [task_a30] [routine_yoga, routine_unnamed] =
     Inr response_9_10
   \<and> length (filter is_routine (resp_blocks response_9_10)) = 2
   \<and> b_title (routine_block 738000 routine_yoga) = ''Routine: Yoga''
   \<and> b_start (routine_block 738000 routine_yoga) = combine 738000 18 0
   \<and> b_end (routine_block 738000 routine_yoga) = combine 738000 18 15"
  using sample_schedule_9_10
    routine_reminders [OF sample_schedule_9_10, where r = routine_yoga]
  by (simp add: routine_yoga_def combine_def)

text \<open>
  C5. The blocks of a response are the blocks of the loop followed by the routine
  blocks, rearranged in ascending order of their start; blocks with the same start keep
  the order they had in that list.
\<close>

theorem blocks_sorted_by_start:
  assumes "generate_schedule today req tasks routines = Inr resp"
  shows "\<exists>start end' st.
           parse_hhmm today (start_or_default req) = Inr start
         \<and> parse_hhmm today (end_or_default req) = Inr end'
         \<and> schedule_loop req end' (tasks_sorted_of tasks) (initial_state start) = Inr st
         \<and> mset (resp_blocks resp) = mset (blocks st @ routine_blocks_of today routines)
         \<and> sorted (map b_start (resp_blocks resp))
         \<and> (\<forall>k. filter (\<lambda>b. b_start b = k) (resp_blocks resp)
                = filter (\<lambda>b. b_start b = k) (blocks st @ routine_blocks_of today routines))"
proof -
  from assms obtain start end' st where
    p: "parse_hhmm today (start_or_default req) = Inr start"
       "parse_hhmm today (end_or_default req) = Inr end'" and
    loop: "schedule_loop req end' (tasks_sorted_of tasks) (initial_state start) = Inr st" and
    resp: "resp_blocks resp = sort_key b_start (blocks st @ routine_blocks_of today routines)"
    by (auto simp add: generate_schedule_Inr)
  have "mset (resp_blocks resp) = mset (blocks st @ routine_blocks_of today routines)"
    by (simp add: resp)
  moreover have "sorted (map b_start (resp_blocks resp))"
    by (simp add: resp)
  moreover have "\<forall>k. filter (\<lambda>b. b_start b = k) (resp_blocks resp)
                = filter (\<lambda>b. b_start b = k) (blocks st @ routine_blocks_of today routines)"
    by (simp only: resp sort_key_stable) simp
  ultimately show ?thesis
    using p loop by blast
qed

theorem blocks_sorted_by_start_witness:
  "generate_schedule 738000 request_9_10 [task_a30] [routine_walk] = Inr response_tie
   \<and> sorted (map b_start (resp_blocks response_tie))
   \<and> map b_title (filter (\<lambda>b. b_start b = combine 738000 9 0) (resp_blocks response_tie))
       = [''A'', ''Routine: Walk'']"
proof -
  from blocks_sorted_by_start [OF sample_schedule_tie]
  have "sorted (map b_start (resp_blocks response_tie))"
    by blast
  then show ?thesis
    using sample_schedule_tie by (simp add: response_tie_def)
qed

subsection \<open>The scheduling loop\<close>

lemma plus_minutes_Inr: "plus_minutes a m = Inr b \<Longrightarrow> b = a + m"
  by (simp add: plus_minutes_def split: if_splits)




lemma loop_body_summary:
  assumes "loop_body req end' t s = Inr (Some s')"
  shows "map block_summary (filter is_task (blocks s')) =
         map block_summary (filter is_task (blocks s)) @ [task_summary t]"
proof -
  from assms obtain block_end where
    pm: "plus_minutes (cursor s) (get_estimated t) = Inr block_end" and
    tb: "take_break req end'
       \<lparr> cursor = block_end, blocks = blocks s @ [task_block t (cursor s) block_end],
         minutes_since_break = minutes_since_break s + get_estimated t \<rparr> = Inr s'"
    by (rule loop_body_Some)
  have "block_end = cursor s + get_estimated t"
    using pm by (rule plus_minutes_Inr)
  then have ts: "block_summary (task_block t (cursor s) block_end) = task_summary t"
    by (simp add: block_summary_def task_summary_def task_block_def)
  have it: "is_task (task_block t (cursor s) block_end)"
    by (simp add: is_task_def task_block_def)
  have nb: "\<not> is_task (break_block a b)" for a b
    by (simp add: is_task_def break_block_def)
  from tb show ?thesis
    by (cases rule: take_break_cases) (simp_all add: ts it nb)
qed

lemma chained_append: "chained s (xs @ ys) = (chained s xs \<and> chained (chain_end s xs) ys)"
  by (induction xs arbitrary: s) auto

lemma chain_end_append: "chain_end s (xs @ ys) = chain_end (chain_end s xs) ys"
  by (induction xs arbitrary: s) auto

lemma loop_body_chained:
  assumes "loop_body req end' t s = Inr (Some s')"
      and "chained start (blocks s) \<and> chain_end start (blocks s) = cursor s"
  shows "chained start (blocks s') \<and> chain_end start (blocks s') = cursor s'"
proof -
  from assms(1) obtain block_end where
    tb: "take_break req end'
       \<lparr> cursor = block_end, blocks = blocks s @ [task_block t (cursor s) block_end],
         minutes_since_break = minutes_since_break s + get_estimated t \<rparr> = Inr s'"
    by (rule loop_body_Some)
  from tb show ?thesis
    by (cases rule: take_break_cases)
       (use assms(2) in \<open>simp_all add: chained_append chain_end_append task_block_def break_block_def\<close>)
qed

lemma schedule_loop_chained:
  assumes "schedule_loop req end' ts (initial_state start) = Inr st"
  shows "chained start (blocks st) \<and> chain_end start (blocks st) = cursor st"
  using assms
proof (rule schedule_loop_invariant)
  show "chained start (blocks (initial_state start))
      \<and> chain_end start (blocks (initial_state start)) = cursor (initial_state start)"
    by (simp add: initial_state_def)
qed (rule loop_body_chained)

lemma schedule_loop_consumed:
  assumes "schedule_loop req end' ts st = Inr st'"
  shows "\<exists>k\<le>length ts.
           map block_summary (filter is_task (blocks st')) =
             map block_summary (filter is_task (blocks st)) @ map task_summary (take k ts)
         \<and> (k < length ts \<longrightarrow>
               end' \<le> cursor st' \<or> end' < cursor st' + get_estimated (ts ! k))"
  using assms
proof (induction ts arbitrary: st)
  case Nil
  then show ?case by simp
next
  case (Cons t ts)
  have stop: ?case
    if "st' = st" "end' \<le> cursor st \<or> end' < cursor st + get_estimated t"
  proof -
    have "map block_summary (filter is_task (blocks st')) =
           map block_summary (filter is_task (blocks st)) @ map task_summary (take 0 (t # ts))
         \<and> (0 < length (t # ts) \<longrightarrow>
               end' \<le> cursor st' \<or> end' < cursor st' + get_estimated ((t # ts) ! 0))"
      using that by simp
    then show ?thesis by blast
  qed
  show ?case
  proof (cases "cursor st < end'")
    case False
    with Cons.prems have "st' = st" by simp
    then show ?thesis using False by (intro stop) simp_all
  next
    case True
    show ?thesis
    proof (cases "loop_body req end' t st")
      case (Inl x)
      with True Cons.prems show ?thesis by simp
    next
      case (Inr r)
      show ?thesis
      proof (cases r)
        case None
        with Inr True Cons.prems have e: "st' = st" by simp
        from None Inr have "end' < cursor st + get_estimated t"
          by (auto simp add: loop_body_def plus_minutes_def Let_def split: if_splits sum.splits)
        with e show ?thesis by (intro stop) simp_all
      next
        case (Some s')
        with Inr True Cons.prems have "schedule_loop req end' ts s' = Inr st'" by simp
        from Cons.IH [OF this] obtain k where k: "k \<le> length ts"
          "map block_summary (filter is_task (blocks st')) =
           map block_summary (filter is_task (blocks s')) @ map task_summary (take k ts)"
          "k < length ts \<longrightarrow> end' \<le> cursor st' \<or> end' < cursor st' + get_estimated (ts ! k)"
          by blast
        from Some Inr have "loop_body req end' t st = Inr (Some s')" by simp
        from loop_body_summary [OF this] k(2)
        have "map block_summary (filter is_task (blocks st')) =
           map block_summary (filter is_task (blocks st)) @ map task_summary (take (Suc k) (t # ts))"
          by simp
        moreover have "Suc k \<le> length (t # ts)" using k(1) by simp
        moreover have "Suc k < length (t # ts) \<longrightarrow>
            end' \<le> cursor st' \<or> end' < cursor st' + get_estimated ((t # ts) ! Suc k)"
          using k(3) by simp
        ultimately show ?thesis by blast
      qed
    qed
  qed
qed

lemma schedule_loop_step:
  assumes "cursor s < end'"
      and "plus_minutes (cursor s) (get_estimated t) = Inr block_end"
      and "block_end \<le> end'"
      and "schedule_loop req end' (t # rest) s = Inr st'"
  shows "\<exists>s'. loop_body req end' t s = Inr (Some s')
            \<and> take (Suc (length (blocks s))) (blocks s') =
                blocks s @ [task_block t (cursor s) block_end]
            \<and> schedule_loop req end' rest s' = Inr st'"
proof (cases "loop_body req end' t s")
  case (Inl x)
  with assms(1,4) show ?thesis by simp
next
  case (Inr r)
  show ?thesis
  proof (cases r)
    case None
    with Inr assms(2,3) show ?thesis
      by (simp add: loop_body_def Let_def split: sum.splits)
  next
    case (Some s')
    with Inr have b: "loop_body req end' t s = Inr (Some s')" by simp
    with assms(1,4) have l: "schedule_loop req end' rest s' = Inr st'" by simp
    from b obtain be where
      pm: "plus_minutes (cursor s) (get_estimated t) = Inr be" and
      tb: "take_break req end'
         \<lparr> cursor = be, blocks = blocks s @ [task_block t (cursor s) be],
           minutes_since_break = minutes_since_break s + get_estimated t \<rparr> = Inr s'"
      by (rule loop_body_Some)
    from pm assms(2) have be: "be = block_end" by simp
    from tb have "take (Suc (length (blocks s))) (blocks s') =
                blocks s @ [task_block t (cursor s) be]"
      by (cases rule: take_break_cases) simp_all
    with b l be show ?thesis by simp
  qed
qed

lemma schedule_loop_past_end: "end' \<le> cursor st \<Longrightarrow> schedule_loop req end' ts st = Inr st"
  by (cases ts) simp_all

text \<open>
  For a validated task (5 to 600 minutes) the end of its block is a representable date
  and time on every day but the last one of the calendar.
\<close>

lemma task_block_representable:
  assumes "parse_hhmm today x = Inr end'" and "1 \<le> today" and "today < 3652059"
      and "0 \<le> c" and "c < end'" and "0 < m" and "m \<le> 600"
  shows "plus_minutes c m = Inr (c + m)"
  using assms
  by (auto simp add: parse_hhmm_def combine_def plus_minutes_def max_instant_def
      split: prod.splits if_splits)

text \<open>
  C2. The blocks of the loop are chained from the start instant, where the cursor
  starts. The task blocks among them are, in order, those of the first k sorted tasks,
  each with the title, the priority and the length of its task; and k is as large as
  the window allows: when a task is left over, the cursor has reached the end instant
  or the block of the first task left over would end after it. A task whose block fits
  is emitted at the cursor and the loop goes on with the tasks after it. When the block
  of the task at hand would end after the end instant, the loop ends there, whatever
  tasks follow. When the start instant is not before the end instant, the response
  holds the routine blocks only.
\<close>

theorem tasks_consumed_in_order:
  "(schedule_loop req end' ts (initial_state start) = Inr st \<longrightarrow>
      chained start (blocks st) \<and> chain_end start (blocks st) = cursor st
    \<and> (\<exists>k\<le>length ts.
          map block_summary (filter is_task (blocks st)) = map task_summary (take k ts)
        \<and> (k < length ts \<longrightarrow>
              end' \<le> cursor st \<or> end' < cursor st + get_estimated (ts ! k))))
   \<and> (cursor s < end' \<and> plus_minutes (cursor s) (get_estimated t) = Inr block_end
        \<and> block_end \<le> end' \<and> schedule_loop req end' (t # rest) s = Inr st' \<longrightarrow>
      (\<exists>s'. loop_body req end' t s = Inr (Some s')
           \<and> take (Suc (length (blocks s))) (blocks s') =
               blocks s @ [task_block t (cursor s) block_end]
           \<and> schedule_loop req end' rest s' = Inr st'))
   \<and> (cursor s < end' \<and> plus_minutes (cursor s) (get_estimated t) = Inr block_end
        \<and> end' < block_end \<longrightarrow>
      schedule_loop req end' (t # rest) s = Inr s)
   \<and> (parse_hhmm today (start_or_default req) = Inr start
        \<and> parse_hhmm today (end_or_default req) = Inr end' \<and> end' \<le> start \<longrightarrow>
      generate_schedule today req tasks routines =
        Inr \<lparr> resp_date = today,
              resp_blocks = sort_key b_start (routine_blocks_of today routines) \<rparr>
    \<and> list_all is_routine (sort_key b_start (routine_blocks_of today routines)))"
proof -
  have a: "chained start (blocks st) \<and> chain_end start (blocks st) = cursor st
    \<and> (\<exists>k\<le>length ts.
          map block_summary (filter is_task (blocks st)) = map task_summary (take k ts)
        \<and> (k < length ts \<longrightarrow>
              end' \<le> cursor st \<or> end' < cursor st + get_estimated (ts ! k)))"
    if l: "schedule_loop req end' ts (initial_state start) = Inr st"
    using schedule_loop_chained [OF l] schedule_loop_consumed [OF l]
    by (simp add: initial_state_def)
  have d: "\<exists>s'. loop_body req end' t s = Inr (Some s')
           \<and> take (Suc (length (blocks s))) (blocks s') =
               blocks s @ [task_block t (cursor s) block_end]
           \<and> schedule_loop req end' rest s' = Inr st'"
    if "cursor s < end'" "plus_minutes (cursor s) (get_estimated t) = Inr block_end"
       "block_end \<le> end'" "schedule_loop req end' (t # rest) s = Inr st'"
    using that by (rule schedule_loop_step)
  have b: "schedule_loop req end' (t # rest) s = Inr s"
    if "cursor s < end'" "plus_minutes (cursor s) (get_estimated t) = Inr block_end"
       "end' < block_end"
    using that by (simp add: loop_body_def Let_def)
  have c1: "generate_schedule today req tasks routines =
        Inr \<lparr> resp_date = today,
              resp_blocks = sort_key b_start (routine_blocks_of today routines) \<rparr>"
    if "parse_hhmm today (start_or_default req) = Inr start"
       "parse_hhmm today (end_or_default req) = Inr end'" "end' \<le> start"
    using that
    by (simp add: generate_schedule_def Let_def schedule_loop_past_end initial_state_def)
  have c2: "list_all is_routine (sort_key b_start (routine_blocks_of today routines))"
    using routine_blocks_routine [of today routines] by (simp add: list_all_iff)
  from a d b c1 c2 show ?thesis by blast
qed

lemma sample_loop_9_11:
  "schedule_loop request_9_11 (combine 738000 11 0) [task_a50, task_b120, task_c30]
     (initial_state (combine 738000 9 0)) = Inr state_after_a50"
  by (simp add: schedule_eval request_9_11_def task_a50_def task_b120_def task_c30_def
      state_after_a50_def)

lemma sample_schedule_9_11:
  "generate_schedule 738000 request_9_11 [task_c30, task_b120, task_a50] [] =
     Inr \<lparr> resp_date = 738000, resp_blocks = blocks state_after_a50 \<rparr>"
  by (simp add: schedule_eval request_9_11_def task_a50_def task_b120_def task_c30_def
      state_after_a50_def)

theorem tasks_consumed_in_order_witness:
  "schedule_loop request_9_11 (combine 738000 11 0) [task_a50, task_b120, task_c30]
     (initial_state (combine 738000 9 0)) = Inr state_after_a50
   \<and> map block_summary (filter is_task (blocks state_after_a50)) =
       map task_summary (take 1 [task_a50, task_b120, task_c30])
   \<and> loop_body request_9_11 (combine 738000 11 0) task_a50 (initial_state (combine 738000 9 0))
       = Inr (Some state_after_a50)
   \<and> cursor state_after_a50 < combine 738000 11 0
   \<and> plus_minutes (cursor state_after_a50) (get_estimated task_b120) = Inr (combine 738000 12 0)
   \<and> combine 738000 11 0 < combine 738000 12 0
   \<and> plus_minutes (cursor state_after_a50) (get_estimated task_c30) = Inr (combine 738000 10 30)
   \<and> schedule_loop request_9_11 (combine 738000 11 0) [task_b120, task_c30] state_after_a50
       = Inr state_after_a50
   \<and> generate_schedule 738000 request_9_11 [task_c30, task_b120, task_a50] [] =
       Inr \<lparr> resp_date = 738000, resp_blocks = blocks state_after_a50 \<rparr>
   \<and> parse_hhmm 738000 (start_or_default request_10_9) = Inr (combine 738000 10 0)
   \<and> parse_hhmm 738000 (end_or_default request_10_9) = Inr (combine 738000 9 0)
   \<and> combine 738000 9 0 \<le> combine 738000 10 0
   \<and> generate_schedule 738000 request_10_9 [task_a50] [routine_yoga] =
       Inr \<lparr> resp_date = 738000, resp_blocks = [routine_block 738000 routine_yoga] \<rparr>"
proof -
  have h1: "cursor state_after_a50 < combine 738000 11 0"
    by (simp add: state_after_a50_def combine_def)
  have h2: "plus_minutes (cursor state_after_a50) (get_estimated task_b120) = Inr (combine 738000 12 0)"
    by (simp add: state_after_a50_def combine_def plus_minutes_def max_instant_def
        get_estimated_def task_b120_def)
  have h3: "combine 738000 11 0 < combine 738000 12 0"
    by (simp add: combine_def)
  have h4: "plus_minutes (cursor state_after_a50) (get_estimated task_c30) = Inr (combine 738000 10 30)"
    by (simp add: state_after_a50_def combine_def plus_minutes_def max_instant_def
        get_estimated_def task_c30_def)
  have p1: "parse_hhmm 738000 (start_or_default request_10_9) = Inr (combine 738000 10 0)"
    by (simp add: parse_hhmm_def start_or_default_def request_10_9_def)
  have p2: "parse_hhmm 738000 (end_or_default request_10_9) = Inr (combine 738000 9 0)"
    by (simp add: parse_hhmm_def end_or_default_def request_10_9_def)
  have p3: "combine 738000 9 0 \<le> combine 738000 10 0"
    by (simp add: combine_def)
  have s: "map block_summary (filter is_task (blocks state_after_a50)) =
       map task_summary (take 1 [task_a50, task_b120, task_c30])"
    by (simp add: state_after_a50_def is_task_def block_summary_def task_summary_def
        task_block_def break_block_def task_a50_def get_priority_def get_estimated_def
        combine_def)
  have g1: "cursor (initial_state (combine 738000 9 0)) < combine 738000 11 0"
    by (simp add: initial_state_def combine_def)
  have g2: "plus_minutes (cursor (initial_state (combine 738000 9 0))) (get_estimated task_a50)
      = Inr (combine 738000 9 50)"
    by (simp add: initial_state_def combine_def plus_minutes_def max_instant_def
        get_estimated_def task_a50_def)
  have g3: "combine 738000 9 50 \<le> combine 738000 11 0"
    by (simp add: combine_def)
  note t = tasks_consumed_in_order [where req = request_9_11 and end' = "combine 738000 11 0"
      and s = state_after_a50 and t = task_b120 and rest = "[task_c30]"
      and block_end = "combine 738000 12 0"]
  note u = tasks_consumed_in_order [where req = request_10_9 and today = 738000
      and start = "combine 738000 10 0" and end' = "combine 738000 9 0"
      and tasks = "[task_a50]" and routines = "[routine_yoga]"]
  note v = tasks_consumed_in_order [where req = request_9_11 and end' = "combine 738000 11 0"
      and s = "initial_state (combine 738000 9 0)" and t = task_a50
      and rest = "[task_b120, task_c30]" and block_end = "combine 738000 9 50"
      and st' = state_after_a50]
  have b: "schedule_loop request_9_11 (combine 738000 11 0) [task_b120, task_c30] state_after_a50
       = Inr state_after_a50"
    using t h1 h2 h3 by blast
  from v g1 g2 g3 sample_loop_9_11 obtain s' where
    s': "loop_body request_9_11 (combine 738000 11 0) task_a50 (initial_state (combine 738000 9 0))
       = Inr (Some s')"
    by blast
  have e: "loop_body request_9_11 (combine 738000 11 0) task_a50 (initial_state (combine 738000 9 0))
       = Inr (Some state_after_a50)"
    by (simp add: schedule_eval request_9_11_def task_a50_def state_after_a50_def)
  have c: "generate_schedule 738000 request_10_9 [task_a50] [routine_yoga] =
       Inr \<lparr> resp_date = 738000, resp_blocks = [routine_block 738000 routine_yoga] \<rparr>"
    using u p1 p2 p3 by (simp add: routine_blocks_of_def)
  from sample_loop_9_11 s e h1 h2 h3 h4 b sample_schedule_9_11 p1 p2 p3 c
  show ?thesis by (intro conjI)
qed

subsection \<open>Layout of the task and break blocks\<close>







lemma validated_task_minutes:
  assumes "validate_Task inp = Inr T"
  shows "5 \<le> get_estimated (task_document T) \<and> get_estimated (task_document T) \<le> 600"
  using assms
  by (auto simp add: validate_Task_def optional_int_def check_range_def Let_def
      task_document_def get_estimated_def split: sum.splits field.splits if_splits)





end
